theory Spec2Isabelle
  imports Complex_Main "HOL-Library.AList"
begin

section \<open>Python values\<close>

text \<open>
  The engine is Python 2 code (IronPython inside Grasshopper). Exceptions are values of
  type \<open>error\<close>; a function that may raise returns \<open>error + 'a\<close> with \<open>Inl\<close> the
  exception. Numbers are \<open>int\<close> or \<open>float\<close>; the distinction is kept because the
  aggregator dispatches on \<open>isinstance(v, float)\<close>. Floats are modelled by the reals,
  so rounding is abstracted away.
\<close>

datatype error = ZeroDivisionError | TypeError | ValueError | KeyError | AttributeError

datatype pynum = PyInt int | PyFloat real

fun num_real :: "pynum \<Rightarrow> real" where
  "num_real (PyInt i) = real_of_int i"
| "num_real (PyFloat r) = r"

text \<open>\<open>a + b\<close> on numbers: int + int stays an int, anything else is a float.\<close>

fun py_add :: "pynum \<Rightarrow> pynum \<Rightarrow> pynum" where
  "py_add (PyInt a) (PyInt b) = PyInt (a + b)"
| "py_add a b = PyFloat (num_real a + num_real b)"

fun py_abs :: "pynum \<Rightarrow> pynum" where
  "py_abs (PyInt a) = PyInt \<bar>a\<bar>"
| "py_abs (PyFloat a) = PyFloat \<bar>a\<bar>"

text \<open>\<open>a / 100\<close> in Python 2: floor division on an int, true division on a float.\<close>

fun py_div100 :: "pynum \<Rightarrow> pynum" where
  "py_div100 (PyInt a) = PyInt (a div 100)"
| "py_div100 (PyFloat a) = PyFloat (a / 100)"

text \<open>Truthiness of an optional number: \<open>None\<close> and zero are false.\<close>

fun truthy_num :: "pynum option \<Rightarrow> bool" where
  "truthy_num None = False"
| "truthy_num (Some n) = (num_real n \<noteq> 0)"

fun truthy_int :: "int option \<Rightarrow> bool" where
  "truthy_int None = False"
| "truthy_int (Some n) = (n \<noteq> 0)"

section \<open>Replacement scheduler\<close>

text \<open>
  \<open>_get_num_replacements(period_of_analysis, service_life)\<close>. A service life of \<open>None\<close>
  makes \<open>period_of_analysis % service_life\<close> raise \<open>TypeError\<close> (in Python 2 the
  comparison \<open>None >= n\<close> is false for every integer \<open>n\<close>, in Python 3 the comparison
  itself raises \<open>TypeError\<close>); a service life of 0 below the period makes the modulo
  raise \<open>ZeroDivisionError\<close>. Python's \<open>//\<close> and \<open>%\<close> on integers are floor division
  and its remainder, as \<open>div\<close> and \<open>mod\<close> on \<open>int\<close> are.
\<close>

definition get_num_replacements :: "int \<Rightarrow> int option \<Rightarrow> error + int" where
  "get_num_replacements period_of_analysis service_life =
     (case service_life of
        None \<Rightarrow> Inl TypeError
      | Some sl \<Rightarrow>
          if sl \<ge> period_of_analysis then Inr 0
          else if sl = 0 then Inl ZeroDivisionError
          else if period_of_analysis mod sl = 0 then Inr (period_of_analysis div sl - 1)
          else Inr (period_of_analysis div sl))"

section \<open>Dictionaries\<close>

text \<open>
  The flow results are nested Python dictionaries whose leaves are numbers, strings and
  material objects. A dictionary is an association list in insertion order with unique
  keys; \<open>d[k] = v\<close> overwrites in place or appends (\<open>AList.update\<close>). Properties are
  stated on lookups, so they do not depend on the iteration order.
\<close>

datatype flow = Energy | Water | GHG

fun code_name :: "flow \<Rightarrow> string" where
  "code_name Energy = ''energy''"
| "code_name Water = ''water''"
| "code_name GHG = ''ghg''"

definition DEFINED_FLOWS :: "flow list" where
  "DEFINED_FLOWS = [Energy, Water, GHG]"

text \<open>
  \<open>EPiCMaterial\<close>: the fields the flow engine reads. \<open>wastage\<close> is the stored fraction.
  The coefficients only ever enter a product that has a float factor, so whether they
  are ints or floats makes no difference and they are reals here.
\<close>

record EPiCMaterial =
  name :: string
  energy :: real
  water :: real
  ghg :: real
  wastage :: real
  service_life :: "int option"
  material_id :: string

fun getattr_flow :: "EPiCMaterial \<Rightarrow> flow \<Rightarrow> real" where
  "getattr_flow m Energy = energy m"
| "getattr_flow m Water = water m"
| "getattr_flow m GHG = ghg m"

datatype val =
    VNum pynum
  | VStr string
  | VObj EPiCMaterial
  | VDict "(string \<times> val) list"

type_synonym pydict = "(string \<times> val) list"

text \<open>\<open>d[k]\<close> as a read: \<open>KeyError\<close> on a missing key, \<open>TypeError\<close> off a dictionary.\<close>

fun get_item :: "val \<Rightarrow> string \<Rightarrow> error + val" where
  "get_item (VDict d) k = (case map_of d k of None \<Rightarrow> Inl KeyError | Some v \<Rightarrow> Inr v)"
| "get_item _ k = Inl TypeError"

text \<open>\<open>d[k] = v\<close>: \<open>TypeError\<close> off a dictionary.\<close>

fun set_item :: "val \<Rightarrow> string \<Rightarrow> val \<Rightarrow> error + val" where
  "set_item (VDict d) k v = Inr (VDict (AList.update k v d))"
| "set_item _ k v = Inl TypeError"

text \<open>\<open>a + b\<close> on values: numbers add, strings concatenate, anything else raises.\<close>

fun val_add :: "val \<Rightarrow> val \<Rightarrow> error + val" where
  "val_add (VNum a) (VNum b) = Inr (VNum (py_add a b))"
| "val_add (VStr a) (VStr b) = Inr (VStr (a @ b))"
| "val_add _ _ = Inl TypeError"

definition bind_err :: "error + 'a \<Rightarrow> ('a \<Rightarrow> error + 'b) \<Rightarrow> error + 'b" where
  "bind_err x f = (case x of Inl e \<Rightarrow> Inl e | Inr v \<Rightarrow> f v)"

text \<open>A loop whose body may raise: the first exception ends it.\<close>

fun fold_err :: "('a \<Rightarrow> 's \<Rightarrow> error + 's) \<Rightarrow> 'a list \<Rightarrow> 's \<Rightarrow> error + 's" where
  "fold_err f [] s = Inr s"
| "fold_err f (x # xs) s = (case f x s of Inl e \<Rightarrow> Inl e | Inr s' \<Rightarrow> fold_err f xs s')"

text \<open>\<open>sub in s\<close> on strings: \<open>sub\<close> occurs in \<open>s\<close> as a contiguous run.\<close>

fun starts_with :: "string \<Rightarrow> string \<Rightarrow> bool" where
  "starts_with [] s = True"
| "starts_with (c # cs) [] = False"
| "starts_with (c # cs) (d # ds) = (c = d \<and> starts_with cs ds)"

fun py_contains :: "string \<Rightarrow> string \<Rightarrow> bool" where
  "py_contains sub [] = (sub = [])"
| "py_contains sub (c # cs) = (starts_with sub (c # cs) \<or> py_contains sub cs)"

text \<open>
  \<open>sum_numerical_dictionary_values(dict_1, dict_2)\<close>: a deep copy of \<open>dict_1\<close> to which
  every int or float of \<open>dict_2\<close> is added and into which every dictionary of \<open>dict_2\<close>
  is merged recursively; other leaves of \<open>dict_2\<close> are skipped.
\<close>

fun sum_numerical_dictionary_values :: "val \<Rightarrow> pydict \<Rightarrow> error + val" where
  "sum_numerical_dictionary_values dict_3 [] = Inr dict_3"
| "sum_numerical_dictionary_values dict_3 ((key, VNum n) # rest) =
     (case get_item dict_3 key of
        Inl e \<Rightarrow> Inl e
      | Inr old \<Rightarrow>
          (case val_add old (VNum n) of
             Inl e \<Rightarrow> Inl e
           | Inr new \<Rightarrow>
               (case set_item dict_3 key new of
                  Inl e \<Rightarrow> Inl e
                | Inr dict_3' \<Rightarrow> sum_numerical_dictionary_values dict_3' rest)))"
| "sum_numerical_dictionary_values dict_3 ((key, VDict d) # rest) =
     (case get_item dict_3 key of
        Inl e \<Rightarrow> Inl e
      | Inr old \<Rightarrow>
          (case sum_numerical_dictionary_values old d of
             Inl e \<Rightarrow> Inl e
           | Inr new \<Rightarrow>
               (case set_item dict_3 key new of
                  Inl e \<Rightarrow> Inl e
                | Inr dict_3' \<Rightarrow> sum_numerical_dictionary_values dict_3' rest)))"
| "sum_numerical_dictionary_values dict_3 ((key, _) # rest) =
     sum_numerical_dictionary_values dict_3 rest"

section \<open>Assembly flow calculator\<close>

text \<open>
  \<open>EPiCAssembly\<close>: \<open>asm_name\<close> and \<open>asm_service_life\<close> are the source's \<open>name\<close> and
  \<open>service_life\<close> (renamed apart from the material's fields). \<open>total_units\<close> comes from
  the geometry service and only ever enters a product with a float factor.
\<close>

record EPiCAssembly =
  asm_name :: string
  category :: string
  asm_service_life :: "int option"
  wastage_override :: "pynum option"
  total_units :: real
  epic_materials :: "(EPiCMaterial \<times> pynum) list"
  flows :: val
  recalculated_flows :: val

text \<open>
  \<open>sum(result)\<close> starts from the int 0, so the sum of an empty list is the int 0 and
  any other sum of floats is a float.
\<close>

definition py_sum :: "real list \<Rightarrow> pynum" where
  "py_sum xs = foldl py_add (PyInt 0) (map PyFloat xs)"

text \<open>
  The loop of \<open>_calculate_flows\<close> over \<open>zip(result, materials_list)\<close>: a material whose
  replacement count raises \<open>ZeroDivisionError\<close> or \<open>TypeError\<close> contributes \<open>0.\<close>.
\<close>

fun recurrent_results :: "int \<Rightarrow> (real \<times> EPiCMaterial \<times> pynum) list \<Rightarrow> error + real list" where
  "recurrent_results period_of_analysis [] = Inr []"
| "recurrent_results period_of_analysis ((embodied_flow, material) # rest) =
     (case (case get_num_replacements period_of_analysis (service_life (fst material)) of
              Inr n \<Rightarrow> Inr (embodied_flow * real_of_int n)
            | Inl e \<Rightarrow> if e = ZeroDivisionError \<or> e = TypeError then Inr 0 else Inl e) of
        Inl e \<Rightarrow> Inl e
      | Inr x \<Rightarrow>
          (case recurrent_results period_of_analysis rest of
             Inl e \<Rightarrow> Inl e
           | Inr xs \<Rightarrow> Inr (x # xs)))"

text \<open>
  \<open>EPiCAssembly._calculate_flows(materials_list, flow, wastage_only, period_of_analysis,
  quantity)\<close>. Every element of \<open>result\<close> is a float, because \<open>base_quantity\<close> is.
  The three branches on \<open>self.wastage_override\<close> are: truthy (a nonzero number), equal
  to 0, and \<open>None\<close>.
\<close>

definition calculate_flows_priv ::
  "EPiCAssembly \<Rightarrow> (EPiCMaterial \<times> pynum) list \<Rightarrow> flow \<Rightarrow> bool \<Rightarrow> int option \<Rightarrow> real option
     \<Rightarrow> error + pynum" where
  "calculate_flows_priv self materials_list flow wastage_only period_of_analysis quantity =
     (let base_quantity = (if wastage_only then 0 else 1 :: real);
          quantity = (case quantity of None \<Rightarrow> total_units self | Some q \<Rightarrow> q);
          result =
            (case wastage_override self of
               Some w \<Rightarrow>
                 if num_real w \<noteq> 0 then
                   map (\<lambda>m. quantity * \<bar>num_real (snd m)\<bar> * getattr_flow (fst m) flow
                               * (base_quantity + num_real w))
                     materials_list
                 else
                   map (\<lambda>m. quantity * \<bar>num_real (snd m)\<bar> * getattr_flow (fst m) flow
                               * base_quantity)
                     materials_list
             | None \<Rightarrow>
                 map (\<lambda>m. quantity * \<bar>num_real (snd m)\<bar> * getattr_flow (fst m) flow
                             * (base_quantity + wastage (fst m)))
                   materials_list)
      in case period_of_analysis of
           None \<Rightarrow> Inr (py_sum result)
         | Some p \<Rightarrow>
             if p = 0 then Inr (py_sum [0])
             else if p > 0 \<and> truthy_int (asm_service_life self) then
               (case get_num_replacements p (asm_service_life self) of
                  Inl e \<Rightarrow> Inl e
                | Inr replacements \<Rightarrow>
                    Inr (py_sum (map (\<lambda>ef. ef * real_of_int replacements) result)))
             else if p > 0 \<and> \<not> truthy_int (asm_service_life self) then
               (case recurrent_results p (zip result materials_list) of
                  Inl e \<Rightarrow> Inl e
                | Inr recurrent \<Rightarrow> Inr (py_sum recurrent))
             else Inr (py_sum result))"

text \<open>The keys of \<open>template_flows\<close>, in order.\<close>

definition template_flows :: pydict where
  "template_flows =
     [(''initial'', VDict []), (''initial_wastage'', VDict []),
      (''recurrent'', VDict []), (''recurrent_wastage'', VDict []),
      (''life_cycle'', VDict []), (''life_cycle_wastage'', VDict [])]"

text \<open>\<open>results[k1][k2]\<close> and \<open>results[k1][k2] = v\<close>.\<close>

definition get_item2 :: "val \<Rightarrow> string \<Rightarrow> string \<Rightarrow> error + val" where
  "get_item2 d k1 k2 = bind_err (get_item d k1) (\<lambda>inner. get_item inner k2)"

definition set_item2 :: "val \<Rightarrow> string \<Rightarrow> string \<Rightarrow> val \<Rightarrow> error + val" where
  "set_item2 d k1 k2 v =
     bind_err (get_item d k1) (\<lambda>inner.
     bind_err (set_item inner k2 v) (\<lambda>inner'.
     set_item d k1 inner'))"

text \<open>The body of the two loops of \<open>_fill_flows_dict\<close>, for one flow type and one flow.\<close>

definition fill_flows_entry ::
  "EPiCAssembly \<Rightarrow> int option \<Rightarrow> (EPiCMaterial \<times> pynum) list \<Rightarrow> real option
     \<Rightarrow> string \<Rightarrow> flow \<Rightarrow> val \<Rightarrow> error + val" where
  "fill_flows_entry self period_of_analysis materials_list quantity flow_type env_flow results =
     (if \<not> py_contains ''life'' flow_type then
        bind_err
          (calculate_flows_priv self materials_list env_flow
             (py_contains ''wastage'' flow_type)
             (if py_contains ''recurrent'' flow_type
              then (case period_of_analysis of None \<Rightarrow> Some 0 | Some p \<Rightarrow> Some p)
              else None)
             quantity)
          (\<lambda>v. set_item2 results flow_type (code_name env_flow) (VNum v))
      else
        bind_err
          (get_item2 results
             (if py_contains ''wastage'' flow_type then ''initial_wastage'' else ''initial'')
             (code_name env_flow)) (\<lambda>initial.
        bind_err
          (get_item2 results
             (if py_contains ''wastage'' flow_type then ''recurrent_wastage'' else ''recurrent'')
             (code_name env_flow)) (\<lambda>recurrent.
        bind_err (val_add initial recurrent) (\<lambda>v.
        set_item2 results flow_type (code_name env_flow) v))))"

text \<open>
  \<open>EPiCAssembly._fill_flows_dict(period_of_analysis, materials_list, quantity)\<close>;
  \<open>materials_list = None\<close> stands for the assembly's own list.
\<close>

definition fill_flows_dict ::
  "EPiCAssembly \<Rightarrow> int option \<Rightarrow> (EPiCMaterial \<times> pynum) list option \<Rightarrow> real option
     \<Rightarrow> error + val" where
  "fill_flows_dict self period_of_analysis materials_list quantity =
     (let materials_list =
            (case materials_list of None \<Rightarrow> epic_materials self | Some ms \<Rightarrow> ms)
      in fold_err
           (\<lambda>flow_type.
              fold_err
                (fill_flows_entry self period_of_analysis materials_list quantity flow_type)
                DEFINED_FLOWS)
           (map fst template_flows) (VDict template_flows))"

text \<open>\<open>d.update(pairs)\<close>.\<close>

fun dict_update :: "(string \<times> val) list \<Rightarrow> val \<Rightarrow> error + val" where
  "dict_update pairs (VDict d) = Inr (VDict (foldl (\<lambda>d (k, v). AList.update k v d) d pairs))"
| "dict_update pairs _ = Inl AttributeError"

text \<open>
  The loop of \<open>EPiCAssembly.calculate_flows\<close> over \<open>self.epic_materials\<close>; the state is
  the dictionary \<open>result['by_material']\<close>.
\<close>

fun by_material_loop ::
  "EPiCAssembly \<Rightarrow> int option \<Rightarrow> (EPiCMaterial \<times> pynum) list \<Rightarrow> pydict \<Rightarrow> error + pydict" where
  "by_material_loop self period_of_analysis [] result_by_material = Inr result_by_material"
| "by_material_loop self period_of_analysis ((material, quantity) # rest) result_by_material =
     (case fill_flows_dict self period_of_analysis (Some [(material, quantity)]) None of
        Inl e \<Rightarrow> Inl e
      | Inr by_material \<Rightarrow>
          (case (case map_of result_by_material (name material) of
                   None \<Rightarrow>
                     dict_update
                       [(''quantity'', VNum quantity), (''material_object'', VObj material),
                        (''material_name'', VStr (name material))]
                       by_material
                 | Some existing \<Rightarrow>
                     bind_err (case by_material of
                                 VDict d \<Rightarrow> sum_numerical_dictionary_values existing d
                               | _ \<Rightarrow> Inl AttributeError) (\<lambda>merged.
                     bind_err (get_item merged ''quantity'') (\<lambda>q.
                     bind_err (val_add q (VNum quantity)) (\<lambda>q'.
                     bind_err (set_item merged ''quantity'' q') (\<lambda>merged'.
                     bind_err (get_item merged' ''material_object'') (\<lambda>obj.
                       case obj of
                         VObj m \<Rightarrow>
                           if material_id m = material_id material then Inr merged'
                           else Inl ValueError
                       | _ \<Rightarrow> Inl AttributeError)))))) of
             Inl e \<Rightarrow> Inl e
           | Inr entry \<Rightarrow>
               by_material_loop self period_of_analysis rest
                 (AList.update (name material) entry result_by_material)))"

text \<open>\<open>EPiCAssembly.calculate_flows(period_of_analysis)\<close>.\<close>

definition calculate_flows :: "EPiCAssembly \<Rightarrow> int option \<Rightarrow> error + val" where
  "calculate_flows self period_of_analysis =
     bind_err (fill_flows_dict self period_of_analysis None None) (\<lambda>result.
     bind_err (by_material_loop self period_of_analysis (epic_materials self) [])
       (\<lambda>by_material. set_item result ''by_material'' (VDict by_material)))"

text \<open>
  \<open>remove_commas_and_flatten_list_for_csv_export\<close> on a single string with the default
  options: every comma becomes a space.
\<close>

definition remove_commas :: "string \<Rightarrow> string" where
  "remove_commas text_inputs = map (\<lambda>c. if c = CHR '','' then CHR '' '' else c) text_inputs"

text \<open>
  \<open>EPiCAssembly.__init__\<close>. \<open>geometry_units\<close> is the sum that the geometry service
  measured for \<open>selected_geometry\<close>; an empty \<open>name\<close> or \<open>category\<close> is a missing one.
  \<open>abs(wastage) / 100\<close> is Python 2 division.
\<close>

definition EPiCAssembly_init ::
  "real \<Rightarrow> string \<Rightarrow> int option \<Rightarrow> pynum option \<Rightarrow> (EPiCMaterial \<times> pynum) list \<Rightarrow> string
     \<Rightarrow> error + EPiCAssembly" where
  "EPiCAssembly_init geometry_units name_arg service_life_arg wastage_arg materials category_arg =
     (let self_name = (if name_arg \<noteq> [] then remove_commas name_arg else ''EPiC Assembly'');
          self0 = \<lparr> asm_name = self_name,
                    category = (if category_arg = [] then self_name
                                else remove_commas category_arg),
                    asm_service_life =
                      (if truthy_int service_life_arg
                       then map_option abs service_life_arg else None),
                    wastage_override =
                      (if truthy_num wastage_arg
                       then map_option (\<lambda>w. py_div100 (py_abs w)) wastage_arg
                       else if map_option num_real wastage_arg = Some 0 then Some (PyFloat 0)
                       else None),
                    total_units = \<bar>geometry_units\<bar>,
                    epic_materials = map (\<lambda>y. (fst y, py_abs (snd y))) materials,
                    flows = VDict [],
                    recalculated_flows = VDict [] \<rparr>
      in bind_err (calculate_flows self0 None) (\<lambda>f.
         bind_err (calculate_flows self0 None) (\<lambda>rf.
         Inr (self0 \<lparr> flows := f, recalculated_flows := rf \<rparr>))))"

section \<open>Analysis aggregator\<close>

text \<open>
  \<open>final_dict_result.setdefault(k, dict())\<close>: the value at \<open>k\<close> and the dictionary
  after the call. A value that is no dictionary has no \<open>setdefault\<close>.
\<close>

fun setdefault_dict :: "val \<Rightarrow> string \<Rightarrow> error + val \<times> val" where
  "setdefault_dict (VDict d) k =
     (case map_of d k of
        None \<Rightarrow> Inr (VDict [], VDict (AList.update k (VDict []) d))
      | Some v \<Rightarrow> Inr (v, VDict d))"
| "setdefault_dict _ k = Inl AttributeError"

text \<open>
  \<open>if k not in d: d[k] = dict()\<close> followed by a read of \<open>d[k]\<close>: the value at \<open>k\<close> and
  the dictionary after the statement. Off a dictionary the test or the subscript that
  follows it raises \<open>TypeError\<close>.
\<close>

fun ensure_dict :: "val \<Rightarrow> string \<Rightarrow> error + val \<times> val" where
  "ensure_dict (VDict d) k =
     (case map_of d k of
        None \<Rightarrow> Inr (VDict [], VDict (AList.update k (VDict []) d))
      | Some v \<Rightarrow> Inr (v, VDict d))"
| "ensure_dict _ k = Inl TypeError"

text \<open>
  \<open>EPiCAnalysis._sum_by_assembly_and_material(final_dict_result, iterative_dict_result,
  by_material, assembly)\<close>. The source mutates \<open>final_dict_result\<close> in place; here the
  merged dictionary is returned. \<open>assembly=False\<close> is \<open>None\<close>. The branches follow the
  source's \<open>isinstance\<close> chain: dictionary, float, string, anything else (ints and
  material objects).
\<close>

fun sum_by_assembly_and_material_rec ::
  "val \<Rightarrow> pydict \<Rightarrow> bool \<Rightarrow> EPiCAssembly option \<Rightarrow> error + val" where
  "sum_by_assembly_and_material_rec final [] by_material assembly = Inr final"
| "sum_by_assembly_and_material_rec final ((k, VDict v) # rest) by_material assembly =
     (case
        (if k = ''by_material'' then
           (if by_material then
              (case setdefault_dict final k of
                 Inl e \<Rightarrow> Inl e
               | Inr (sub, final1) \<Rightarrow>
                   (case sum_by_assembly_and_material_rec sub v True assembly of
                      Inl e \<Rightarrow> Inl e
                    | Inr sub' \<Rightarrow> set_item final1 k sub'))
            else Inr final)
         else
           (case setdefault_dict final k of
              Inl e \<Rightarrow> Inl e
            | Inr (sub, final1) \<Rightarrow>
                (case sum_by_assembly_and_material_rec sub v False None of
                   Inl e \<Rightarrow> Inl e
                 | Inr final_k \<Rightarrow>
                     (case assembly of
                        None \<Rightarrow> set_item final1 k final_k
                      | Some a \<Rightarrow>
                          if by_material \<and> length (epic_materials a) > 0
                             \<and> k \<in> set (map (\<lambda>mat. name (fst mat)) (epic_materials a))
                          then
                            (case ensure_dict final_k ''by_assembly'' of
                               Inl e \<Rightarrow> Inl e
                             | Inr (ba, final_k1) \<Rightarrow>
                                 (case ensure_dict ba (asm_name a) of
                                    Inl e \<Rightarrow> Inl e
                                  | Inr (target, ba1) \<Rightarrow>
                                      (case sum_by_assembly_and_material_rec target v False None of
                                         Inl e \<Rightarrow> Inl e
                                       | Inr target' \<Rightarrow>
                                           bind_err (set_item ba1 (asm_name a) target') (\<lambda>ba2.
                                           bind_err (set_item final_k1 ''by_assembly'' ba2) (\<lambda>final_k2.
                                           set_item final1 k final_k2)))))
                          else set_item final1 k final_k)))) of
        Inl e \<Rightarrow> Inl e
      | Inr final' \<Rightarrow> sum_by_assembly_and_material_rec final' rest by_material assembly)"
| "sum_by_assembly_and_material_rec final ((k, VNum (PyFloat v)) # rest) by_material assembly =
     (case (case final of
              VDict d \<Rightarrow>
                (case map_of d k of
                   None \<Rightarrow> val_add (VNum (PyInt 0)) (VNum (PyFloat v))
                 | Some old \<Rightarrow> val_add old (VNum (PyFloat v)))
            | _ \<Rightarrow> Inl AttributeError) of
        Inl e \<Rightarrow> Inl e
      | Inr new \<Rightarrow>
          (case set_item final k new of
             Inl e \<Rightarrow> Inl e
           | Inr final' \<Rightarrow> sum_by_assembly_and_material_rec final' rest by_material assembly))"
| "sum_by_assembly_and_material_rec final ((k, VStr v) # rest) by_material assembly =
     (case (case final of
              VDict d \<Rightarrow>
                (case map_of d k of
                   Some old \<Rightarrow>
                     if old = VStr v then Inr final
                     else bind_err (val_add old (VStr ''/'')) (\<lambda>x.
                          bind_err (val_add x (VStr v)) (\<lambda>y. set_item final k y))
                 | None \<Rightarrow> set_item final k (VStr v))
            | _ \<Rightarrow> Inl TypeError) of
        Inl e \<Rightarrow> Inl e
      | Inr final' \<Rightarrow> sum_by_assembly_and_material_rec final' rest by_material assembly)"
| "sum_by_assembly_and_material_rec final ((k, v) # rest) by_material assembly =
     (case set_item final k v of
        Inl e \<Rightarrow> Inl e
      | Inr final' \<Rightarrow> sum_by_assembly_and_material_rec final' rest by_material assembly)"

text \<open>
  The loop of \<open>EPiCAnalysis.sum_by_assembly_and_material\<close> over \<open>self.epic_assemblies\<close>;
  the state is \<open>result\<close>.
\<close>

fun sum_assemblies_loop :: "EPiCAssembly list \<Rightarrow> val \<Rightarrow> error + val" where
  "sum_assemblies_loop [] result = Inr result"
| "sum_assemblies_loop (assembly # rest) result =
     (case recalculated_flows assembly of
        VDict rf \<Rightarrow>
          (case sum_by_assembly_and_material_rec result rf True (Some assembly) of
             Inl e \<Rightarrow> Inl e
           | Inr result1 \<Rightarrow>
               (case ensure_dict result1 ''by_assembly'' of
                  Inl e \<Rightarrow> Inl e
                | Inr (ba, result2) \<Rightarrow>
                    (case ensure_dict ba (category assembly) of
                       Inl e \<Rightarrow> Inl e
                     | Inr (target, ba1) \<Rightarrow>
                         (case sum_by_assembly_and_material_rec target rf True None of
                            Inl e \<Rightarrow> Inl e
                          | Inr target' \<Rightarrow>
                              (case bind_err (set_item ba1 (category assembly) target') (\<lambda>ba2.
                                    set_item result2 ''by_assembly'' ba2) of
                                 Inl e \<Rightarrow> Inl e
                               | Inr result3 \<Rightarrow> sum_assemblies_loop rest result3)))))
      | _ \<Rightarrow> Inl AttributeError)"

definition sum_by_assembly_and_material :: "EPiCAssembly list \<Rightarrow> error + val" where
  "sum_by_assembly_and_material self_epic_assemblies =
     sum_assemblies_loop self_epic_assemblies (VDict [])"

text \<open>
  \<open>EPiCAnalysis\<close> and \<open>EPiCBuiltAsset\<close> (the same class but for \<open>component_type\<close>): the
  fields the aggregation sets. The graph is left out.
\<close>

record EPiCAnalysis =
  component_type :: string
  an_name :: string
  an_period_of_analysis :: "int option"
  an_epic_assemblies :: "EPiCAssembly list"
  an_flows :: val

datatype epic_input = InAssembly EPiCAssembly | InAnalysis EPiCAnalysis

fun input_assemblies :: "epic_input list \<Rightarrow> EPiCAssembly list" where
  "input_assemblies [] = []"
| "input_assemblies (InAssembly a # xs) = a # input_assemblies xs"
| "input_assemblies (InAnalysis b # xs) = input_assemblies xs"

fun input_built_assets :: "epic_input list \<Rightarrow> EPiCAnalysis list" where
  "input_built_assets [] = []"
| "input_built_assets (InAssembly a # xs) = input_built_assets xs"
| "input_built_assets (InAnalysis b # xs) =
     (if component_type b = ''EPiCBuiltAsset'' \<or> component_type b = ''EPiCAnalysis''
      then b # input_built_assets xs else input_built_assets xs)"

text \<open>
  The loop \<open>assembly.recalculated_flows = assembly.calculate_flows(period_of_analysis)\<close>.
\<close>

fun recalculate_all :: "int option \<Rightarrow> EPiCAssembly list \<Rightarrow> error + EPiCAssembly list" where
  "recalculate_all period_of_analysis [] = Inr []"
| "recalculate_all period_of_analysis (assembly # rest) =
     (case calculate_flows assembly period_of_analysis of
        Inl e \<Rightarrow> Inl e
      | Inr rf \<Rightarrow>
          (case recalculate_all period_of_analysis rest of
             Inl e \<Rightarrow> Inl e
           | Inr rest' \<Rightarrow> Inr (assembly \<lparr> recalculated_flows := rf \<rparr> # rest')))"

text \<open>
  \<open>EPiCAnalysis.__init__(name, epic_assemblies, period_of_analysis)\<close>; the default of
  \<open>period_of_analysis\<close> is 100.
\<close>

definition default_period_of_analysis :: "int option" where
  "default_period_of_analysis = Some 100"

definition EPiCAnalysis_init :: "string \<Rightarrow> epic_input list \<Rightarrow> int option \<Rightarrow> error + EPiCAnalysis" where
  "EPiCAnalysis_init name_arg epic_inputs period_of_analysis =
     (let built_asset_objects = input_built_assets epic_inputs;
          epic_assemblies =
            input_assemblies epic_inputs @ concat (map an_epic_assemblies built_asset_objects)
      in bind_err (recalculate_all period_of_analysis epic_assemblies) (\<lambda>assemblies.
         bind_err (sum_by_assembly_and_material assemblies) (\<lambda>f.
         Inr \<lparr> component_type = ''EPiCAnalysis'',
               an_name = (if name_arg \<noteq> [] then remove_commas name_arg else ''EPiCAnalysis''),
               an_period_of_analysis = period_of_analysis,
               an_epic_assemblies = assemblies,
               an_flows = f \<rparr>)))"

text \<open>
  \<open>EPiCBuiltAsset.__init__(*args, **kwargs)\<close>: the analysis is built first, with
  whatever period the arguments carry, and the two fields are overwritten afterwards.
\<close>

definition EPiCBuiltAsset_init :: "string \<Rightarrow> epic_input list \<Rightarrow> int option \<Rightarrow> error + EPiCAnalysis" where
  "EPiCBuiltAsset_init name_arg epic_inputs period_of_analysis =
     bind_err (EPiCAnalysis_init name_arg epic_inputs period_of_analysis) (\<lambda>self.
     Inr (self \<lparr> an_period_of_analysis := Some 0, component_type := ''EPiCBuiltAsset'' \<rparr>))"

section \<open>Closed forms and invariants used in the proofs\<close>

definition flow_term :: "EPiCAssembly \<Rightarrow> real option \<Rightarrow> flow \<Rightarrow> bool \<Rightarrow> EPiCMaterial \<times> pynum \<Rightarrow> real" where
  "flow_term self quantity flow wastage_only m =
     (case quantity of None \<Rightarrow> total_units self | Some q \<Rightarrow> q)
       * \<bar>num_real (snd m)\<bar> * getattr_flow (fst m) flow
       * ((if wastage_only then 0 else 1)
          + (case wastage_override self of Some w \<Rightarrow> num_real w | None \<Rightarrow> wastage (fst m)))"

definition replacement_factor :: "int \<Rightarrow> int option \<Rightarrow> real" where
  "replacement_factor p sl =
     (case get_num_replacements p sl of Inr n \<Rightarrow> real_of_int n | Inl e \<Rightarrow> 0)"

definition calc_value ::
  "EPiCAssembly \<Rightarrow> (EPiCMaterial \<times> pynum) list \<Rightarrow> flow \<Rightarrow> bool \<Rightarrow> int option \<Rightarrow> real option \<Rightarrow> pynum" where
  "calc_value self ms flow wastage_only period quantity =
     (case period of
        None \<Rightarrow> py_sum (map (flow_term self quantity flow wastage_only) ms)
      | Some p \<Rightarrow>
          if p = 0 then PyFloat 0
          else if p > 0 \<and> truthy_int (asm_service_life self) then
            py_sum (map (\<lambda>m. flow_term self quantity flow wastage_only m
                              * replacement_factor p (asm_service_life self)) ms)
          else if p > 0 then
            py_sum (map (\<lambda>m. flow_term self quantity flow wastage_only m
                              * replacement_factor p (service_life (fst m))) ms)
          else py_sum (map (flow_term self quantity flow wastage_only) ms))"

definition bucket_dict :: "(flow \<Rightarrow> pynum) \<Rightarrow> val" where
  "bucket_dict g =
     VDict [(''energy'', VNum (g Energy)), (''water'', VNum (g Water)), (''ghg'', VNum (g GHG))]"

definition totals_dict ::
  "(flow \<Rightarrow> pynum) \<Rightarrow> (flow \<Rightarrow> pynum) \<Rightarrow> (flow \<Rightarrow> pynum) \<Rightarrow> (flow \<Rightarrow> pynum) \<Rightarrow> pydict" where
  "totals_dict i iw r rw =
     [(''initial'', bucket_dict i), (''initial_wastage'', bucket_dict iw),
      (''recurrent'', bucket_dict r), (''recurrent_wastage'', bucket_dict rw),
      (''life_cycle'', bucket_dict (\<lambda>f. py_add (i f) (r f))),
      (''life_cycle_wastage'', bucket_dict (\<lambda>f. py_add (iw f) (rw f)))]"

definition recurrent_period :: "int option \<Rightarrow> int option" where
  "recurrent_period p = (case p of None \<Rightarrow> Some 0 | Some x \<Rightarrow> Some x)"

definition single_value ::
  "EPiCAssembly \<Rightarrow> int option \<Rightarrow> EPiCMaterial \<times> pynum \<Rightarrow> bool \<Rightarrow> flow \<Rightarrow> real" where
  "single_value self period mq wastage_only f =
     num_real (calc_value self [mq] f wastage_only period None)"

definition float_totals ::
  "(flow \<Rightarrow> real) \<Rightarrow> (flow \<Rightarrow> real) \<Rightarrow> (flow \<Rightarrow> real) \<Rightarrow> (flow \<Rightarrow> real) \<Rightarrow> pydict" where
  "float_totals i iw r rw =
     totals_dict (\<lambda>f. PyFloat (i f)) (\<lambda>f. PyFloat (iw f)) (\<lambda>f. PyFloat (r f)) (\<lambda>f. PyFloat (rw f))"

definition entry_dict ::
  "(flow \<Rightarrow> real) \<Rightarrow> (flow \<Rightarrow> real) \<Rightarrow> (flow \<Rightarrow> real) \<Rightarrow> (flow \<Rightarrow> real) \<Rightarrow> pynum \<Rightarrow> EPiCMaterial \<Rightarrow> val" where
  "entry_dict i iw r rw qn m =
     VDict (float_totals i iw r rw
            @ [(''quantity'', VNum qn), (''material_object'', VObj m),
               (''material_name'', VStr (name m))])"

definition all_entries ::
  "((flow \<Rightarrow> real) \<Rightarrow> (flow \<Rightarrow> real) \<Rightarrow> (flow \<Rightarrow> real) \<Rightarrow> (flow \<Rightarrow> real) \<Rightarrow> bool) \<Rightarrow> pydict \<Rightarrow> bool" where
  "all_entries P bm =
     (\<forall>k v. (k, v) \<in> set bm \<longrightarrow>
        (\<exists>i iw r rw qn m. v = entry_dict i iw r rw qn m \<and> name m = k \<and> P i iw r rw))"




definition obj_at :: "pydict \<Rightarrow> string \<Rightarrow> EPiCMaterial \<Rightarrow> bool" where
  "obj_at bm k m0 = (\<exists>i iw r rw qn. map_of bm k = Some (entry_dict i iw r rw qn m0))"




text \<open>\<open>v[k1][k2]...\<close>: a read along a path of keys.\<close>

fun get_path :: "val \<Rightarrow> string list \<Rightarrow> error + val" where
  "get_path v [] = Inr v"
| "get_path v (k # ks) = (case get_item v k of Inl e \<Rightarrow> Inl e | Inr x \<Rightarrow> get_path x ks)"







text \<open>Concrete inputs for the worked instances of the theorems below.\<close>

definition example_material :: "string \<Rightarrow> string \<Rightarrow> int option \<Rightarrow> EPiCMaterial" where
  "example_material n mid sl =
     \<lparr> name = n, energy = 10, water = 2, ghg = 1, wastage = 1 / 10, service_life = sl,
       material_id = mid \<rparr>"

definition example_assembly :: "string \<Rightarrow> (EPiCMaterial \<times> pynum) list \<Rightarrow> EPiCAssembly" where
  "example_assembly n ms =
     \<lparr> asm_name = n, category = n, asm_service_life = None, wastage_override = None,
       total_units = 5, epic_materials = ms, flows = VDict [], recalculated_flows = VDict [] \<rparr>"


text \<open>
  An analysis (or built asset, according to \<open>init\<close>) named \<open>house\<close> over one assembly
  per material list, each constructed with 5 units and no override.
\<close>

definition example_analysis_flows ::
  "(string \<Rightarrow> epic_input list \<Rightarrow> int option \<Rightarrow> error + EPiCAnalysis) \<Rightarrow> int option
     \<Rightarrow> (EPiCMaterial \<times> pynum) list list \<Rightarrow> error + EPiCAnalysis" where
  "example_analysis_flows init period material_lists =
     bind_err (fold_err (\<lambda>ms as.
                  bind_err (EPiCAssembly_init 5 ''wall'' None None ms ''walls'')
                    (\<lambda>a. Inr (as @ [InAssembly a])))
                material_lists [])
       (\<lambda>as. init ''house'' as period)"

section \<open>Lemmas\<close>


lemma foldl_py_add_float:
  "foldl py_add (PyFloat a) (map PyFloat xs) = PyFloat (a + sum_list xs)"
  by (induction xs arbitrary: a) (simp_all add: algebra_simps)

lemma py_sum_Cons: "py_sum (x # xs) = PyFloat (x + sum_list xs)"
  by (simp add: py_sum_def foldl_py_add_float)



lemma get_num_replacements_cases:
  "get_num_replacements p sl = Inl ZeroDivisionError
   \<or> get_num_replacements p sl = Inl TypeError
   \<or> (\<exists>n. get_num_replacements p sl = Inr n)"
  by (simp add: get_num_replacements_def split: option.splits)

lemma recurrent_results_closed:
  "recurrent_results p (map (\<lambda>m. (f m, m)) ms) =
     Inr (map (\<lambda>m. f m * replacement_factor p (service_life (fst m))) ms)"
proof (induction ms)
  case Nil
  then show ?case by simp
next
  case (Cons m ms)
  show ?case
    using get_num_replacements_cases [of p "service_life (fst m)"] Cons.IH
    by (auto simp: replacement_factor_def)
qed

lemma get_num_replacements_truthy:
  "truthy_int sl \<Longrightarrow> \<exists>n. get_num_replacements p sl = Inr n"
  by (cases sl) (auto simp: get_num_replacements_def)

lemma result_list:
  "(case wastage_override self of
      Some w \<Rightarrow>
        if num_real w \<noteq> 0 then
          map (\<lambda>m. Q * \<bar>num_real (snd m)\<bar> * getattr_flow (fst m) flow * (B + num_real w)) ms
        else
          map (\<lambda>m. Q * \<bar>num_real (snd m)\<bar> * getattr_flow (fst m) flow * B) ms
    | None \<Rightarrow>
        map (\<lambda>m. Q * \<bar>num_real (snd m)\<bar> * getattr_flow (fst m) flow * (B + wastage (fst m))) ms)
   = map (\<lambda>m. Q * \<bar>num_real (snd m)\<bar> * getattr_flow (fst m) flow
                * (B + (case wastage_override self of Some w \<Rightarrow> num_real w | None \<Rightarrow> wastage (fst m)))) ms"
  by (simp split: option.splits)

lemma zip_map_self: "zip (map f ms) ms = map (\<lambda>m. (f m, m)) ms"
  by (induction ms) simp_all

lemma calculate_flows_priv_closed:
  "calculate_flows_priv self ms flow wastage_only period quantity =
     Inr (calc_value self ms flow wastage_only period quantity)"
proof (cases period)
  case None
  then show ?thesis
    unfolding calculate_flows_priv_def calc_value_def Let_def result_list
    by (simp add: flow_term_def [abs_def])
next
  case (Some p)
  consider "p = 0" | "p > 0" "truthy_int (asm_service_life self)"
    | "p > 0" "\<not> truthy_int (asm_service_life self)" | "p < 0"
    by linarith
  then show ?thesis
  proof cases
    case 1
    with Some show ?thesis
      unfolding calculate_flows_priv_def calc_value_def Let_def result_list
      by (simp add: py_sum_def)
  next
    case 2
    then obtain n where n: "get_num_replacements p (asm_service_life self) = Inr n"
      using get_num_replacements_truthy by blast
    with 2 Some show ?thesis
      unfolding calculate_flows_priv_def calc_value_def Let_def result_list
      by (simp add: replacement_factor_def flow_term_def [abs_def] comp_def)
  next
    case 3
    with Some show ?thesis
      unfolding calculate_flows_priv_def calc_value_def Let_def result_list
      by (simp add: recurrent_results_closed zip_map_self comp_def flow_term_def [abs_def])
  next
    case 4
    with Some show ?thesis
      unfolding calculate_flows_priv_def calc_value_def Let_def result_list
      by (simp add: flow_term_def [abs_def])
  qed
qed

lemma fill_flows_dict_closed:
  "fill_flows_dict self p mso q =
     Inr (VDict (totals_dict
       (\<lambda>f. calc_value self (case mso of None \<Rightarrow> epic_materials self | Some ms \<Rightarrow> ms) f False None q)
       (\<lambda>f. calc_value self (case mso of None \<Rightarrow> epic_materials self | Some ms \<Rightarrow> ms) f True None q)
       (\<lambda>f. calc_value self (case mso of None \<Rightarrow> epic_materials self | Some ms \<Rightarrow> ms) f False (recurrent_period p) q)
       (\<lambda>f. calc_value self (case mso of None \<Rightarrow> epic_materials self | Some ms \<Rightarrow> ms) f True (recurrent_period p) q)))"
  unfolding fill_flows_dict_def Let_def template_flows_def DEFINED_FLOWS_def
    fill_flows_entry_def calculate_flows_priv_closed totals_dict_def bucket_dict_def
    recurrent_period_def
  by (simp add: get_item2_def set_item2_def bind_err_def)

lemma calc_value_single:
  "calc_value self [mq] f w period None = PyFloat (single_value self period mq w f)"
  unfolding single_value_def calc_value_def
  by (cases period) (simp_all add: py_sum_Cons)

lemma fill_single:
  "fill_flows_dict self p (Some [mq]) None =
     Inr (VDict (float_totals
       (single_value self None mq False) (single_value self None mq True)
       (single_value self (recurrent_period p) mq False)
       (single_value self (recurrent_period p) mq True)))"
  by (simp add: fill_flows_dict_closed calc_value_single float_totals_def)

lemma fresh_entry:
  "dict_update
     [(''quantity'', VNum q), (''material_object'', VObj m), (''material_name'', VStr (name m))]
     (VDict (float_totals i iw r rw)) = Inr (entry_dict i iw r rw q m)"
  by (simp add: entry_dict_def float_totals_def totals_dict_def)

lemma merge_entry:
  "sum_numerical_dictionary_values (entry_dict i iw r rw qn m) (float_totals i' iw' r' rw') =
     Inr (entry_dict (\<lambda>f. i f + i' f) (\<lambda>f. iw f + iw' f) (\<lambda>f. r f + r' f) (\<lambda>f. rw f + rw' f) qn m)"
  by (simp add: entry_dict_def float_totals_def totals_dict_def bucket_dict_def algebra_simps)

lemma entry_quantity:
  "get_item (entry_dict i iw r rw qn m) ''quantity'' = Inr (VNum qn)"
  "get_item (entry_dict i iw r rw qn m) ''material_object'' = Inr (VObj m)"
  by (simp_all add: entry_dict_def float_totals_def totals_dict_def)

lemma entry_requantify:
  "set_item (entry_dict i iw r rw qn m) ''quantity'' (VNum qn') = Inr (entry_dict i iw r rw qn' m)"
  by (simp add: entry_dict_def float_totals_def totals_dict_def)

lemma val_add_num: "val_add (VNum a) (VNum b) = Inr (VNum (py_add a b))"
  by simp

lemma loop_step_new:
  assumes "map_of bm (name m) = None"
  shows "by_material_loop self p ((m, q) # rest) bm =
           by_material_loop self p rest
             (AList.update (name m)
                (entry_dict (single_value self None (m, q) False) (single_value self None (m, q) True)
                   (single_value self (recurrent_period p) (m, q) False)
                   (single_value self (recurrent_period p) (m, q) True) q m) bm)"
  using assms by (simp add: fill_single fresh_entry del: dict_update.simps)

lemma loop_step_merge:
  assumes "map_of bm (name m) = Some (entry_dict i iw r rw qn m0)"
  shows "by_material_loop self p ((m, q) # rest) bm =
           (if material_id m0 = material_id m then
              by_material_loop self p rest
                (AList.update (name m)
                  (entry_dict (\<lambda>f. i f + single_value self None (m, q) False f)
                     (\<lambda>f. iw f + single_value self None (m, q) True f)
                     (\<lambda>f. r f + single_value self (recurrent_period p) (m, q) False f)
                     (\<lambda>f. rw f + single_value self (recurrent_period p) (m, q) True f)
                     (py_add qn q) m0) bm)
            else Inl ValueError)"
  using assms
  by (simp add: fill_single merge_entry bind_err_def entry_quantity entry_requantify
        del: get_item.simps set_item.simps)

declare by_material_loop.simps [simp del]

lemma loop_Nil: "by_material_loop self p [] bm = Inr bm"
  by (simp add: by_material_loop.simps)

lemma update_set_cases:
  assumes "(k', v) \<in> set (AList.update k x bm)"
  shows "(k' = k \<and> v = x) \<or> (k', v) \<in> set bm"
  using assms by (induction bm) (auto split: if_splits)

lemma all_entries_update:
  assumes "all_entries P bm" and "P i iw r rw" and "name m = k"
  shows "all_entries P (AList.update k (entry_dict i iw r rw qn m) bm)"
  unfolding all_entries_def
proof (intro allI impI)
  fix k' v
  assume "(k', v) \<in> set (AList.update k (entry_dict i iw r rw qn m) bm)"
  from update_set_cases [OF this]
  show "\<exists>i iw r rw qn m. v = entry_dict i iw r rw qn m \<and> name m = k' \<and> P i iw r rw"
  proof (elim disjE conjE)
    assume 1: "k' = k" "v = entry_dict i iw r rw qn m"
    show ?thesis
      by (rule exI [of _ i], rule exI [of _ iw], rule exI [of _ r], rule exI [of _ rw],
          rule exI [of _ qn], rule exI [of _ m])
        (simp add: 1 assms(2,3))
  next
    assume 2: "(k', v) \<in> set bm"
    show ?thesis
      by (rule assms(1) [unfolded all_entries_def, rule_format, OF 2])
  qed
qed

lemma all_entries_member:
  assumes "all_entries P bm" and "(k, v) \<in> set bm"
  obtains i iw r rw qn m where "v = entry_dict i iw r rw qn m" "name m = k" "P i iw r rw"
proof -
  have "\<exists>i iw r rw qn m. v = entry_dict i iw r rw qn m \<and> name m = k \<and> P i iw r rw"
    by (rule assms(1) [unfolded all_entries_def, rule_format, OF assms(2)])
  then show thesis using that by (elim exE conjE)
qed

lemma all_entries_lookup:
  assumes "all_entries P bm" and "map_of bm k = Some v"
  obtains i iw r rw qn m where "v = entry_dict i iw r rw qn m" "name m = k" "P i iw r rw"
  using all_entries_member [OF assms(1) map_of_SomeD [OF assms(2)]] .

lemma loop_cases:
  assumes inv: "all_entries P bm"
  obtains
    (new) "map_of bm (name m) = None"
      "by_material_loop self p ((m, q) # rest) bm =
         by_material_loop self p rest
           (AList.update (name m)
              (entry_dict (single_value self None (m, q) False) (single_value self None (m, q) True)
                 (single_value self (recurrent_period p) (m, q) False)
                 (single_value self (recurrent_period p) (m, q) True) q m) bm)"
  | (merge) i iw r rw qn m0 where "map_of bm (name m) = Some (entry_dict i iw r rw qn m0)"
      "name m0 = name m" "material_id m0 = material_id m" "P i iw r rw"
      "by_material_loop self p ((m, q) # rest) bm =
         by_material_loop self p rest
           (AList.update (name m)
              (entry_dict (\<lambda>f. i f + single_value self None (m, q) False f)
                 (\<lambda>f. iw f + single_value self None (m, q) True f)
                 (\<lambda>f. r f + single_value self (recurrent_period p) (m, q) False f)
                 (\<lambda>f. rw f + single_value self (recurrent_period p) (m, q) True f)
                 (py_add qn q) m0) bm)"
  | (clash) "by_material_loop self p ((m, q) # rest) bm = Inl ValueError"
proof (cases "map_of bm (name m)")
  case None
  show ?thesis
    by (rule new [OF None loop_step_new [OF None]])
next
  case (Some v)
  from all_entries_lookup [OF inv Some] obtain i iw r rw qn m0 where
    v: "v = entry_dict i iw r rw qn m0" and nm: "name m0 = name m" and P: "P i iw r rw"
    .
  have look: "map_of bm (name m) = Some (entry_dict i iw r rw qn m0)"
    using Some v by simp
  show ?thesis
  proof (cases "material_id m0 = material_id m")
    case True
    show ?thesis
      by (rule merge [OF look nm True P]) (simp add: loop_step_merge [OF look] True)
  next
    case False
    show ?thesis
      by (rule clash) (simp add: loop_step_merge [OF look] False)
  qed
qed


lemma all_entries_Nil: "all_entries P []"
  by (simp add: all_entries_def)





lemma obj_at_update_same: "obj_at (AList.update k (entry_dict i iw r rw qn m0) bm) k m0"
  unfolding obj_at_def
  by (rule exI [of _ i], rule exI [of _ iw], rule exI [of _ r], rule exI [of _ rw],
      rule exI [of _ qn]) (simp add: update_conv')

lemma obj_at_update_other:
  "k' \<noteq> k \<Longrightarrow> obj_at (AList.update k x bm) k' m0 = obj_at bm k' m0"
  unfolding obj_at_def by (simp add: update_conv')

lemma obj_atI: "map_of bm k = Some (entry_dict i iw r rw qn m0) \<Longrightarrow> obj_at bm k m0"
  unfolding obj_at_def by (intro exI)

lemma entry_dict_object:
  "entry_dict i iw r rw qn m = entry_dict i' iw' r' rw' qn' m' \<Longrightarrow> m = m'"
  by (simp add: entry_dict_def)

lemma obj_at_unique: "obj_at bm k m1 \<Longrightarrow> obj_at bm k m2 \<Longrightarrow> m1 = m2"
  unfolding obj_at_def by (elim exE) (simp add: entry_dict_object)

lemma loop_error:
  assumes "all_entries (\<lambda>_ _ _ _. True) bm" and "by_material_loop self p ms bm = Inl e"
  shows "e = ValueError"
  using assms
proof (induction ms arbitrary: bm)
  case Nil
  then show ?case by (simp add: loop_Nil)
next
  case (Cons mq rest)
  obtain m q where mq: "mq = (m, q)" by (cases mq)
  from Cons.prems(1) show ?case
  proof (cases rule: loop_cases [where m = m and q = q and self = self and p = p and rest = rest])
    case new
    from Cons.prems(1) have "all_entries (\<lambda>_ _ _ _. True) (AList.update (name m)
              (entry_dict (single_value self None (m, q) False) (single_value self None (m, q) True)
                 (single_value self (recurrent_period p) (m, q) False)
                 (single_value self (recurrent_period p) (m, q) True) q m) bm)"
      by (rule all_entries_update) simp_all
    then show ?thesis
      using Cons.IH Cons.prems(2) new(2) mq by simp
  next
    case (merge i iw r rw qn m0)
    from Cons.prems(1) have "all_entries (\<lambda>_ _ _ _. True) (AList.update (name m)
              (entry_dict (\<lambda>f. i f + single_value self None (m, q) False f)
                 (\<lambda>f. iw f + single_value self None (m, q) True f)
                 (\<lambda>f. r f + single_value self (recurrent_period p) (m, q) False f)
                 (\<lambda>f. rw f + single_value self (recurrent_period p) (m, q) True f)
                 (py_add qn q) m0) bm)"
      by (rule all_entries_update) (simp_all add: merge(2))
    then show ?thesis
      using Cons.IH Cons.prems(2) merge(5) mq by simp
  next
    case clash
    then show ?thesis using Cons.prems(2) mq by simp
  qed
qed


lemma obj_at_None: "map_of bm k = None \<Longrightarrow> \<not> obj_at bm k m0"
  unfolding obj_at_def by simp

lemma loop_object_stable:
  assumes "all_entries (\<lambda>_ _ _ _. True) bm" and "by_material_loop self p ms bm = Inr bm'"
    and "obj_at bm k m0"
  shows "obj_at bm' k m0"
  using assms
proof (induction ms arbitrary: bm)
  case Nil
  then show ?case by (simp add: loop_Nil)
next
  case (Cons mq rest)
  obtain m q where mq: "mq = (m, q)" by (cases mq)
  from Cons.prems(1) show ?case
  proof (cases rule: loop_cases [where m = m and q = q and self = self and p = p and rest = rest])
    case new
    let ?bm = "AList.update (name m)
              (entry_dict (single_value self None (m, q) False) (single_value self None (m, q) True)
                 (single_value self (recurrent_period p) (m, q) False)
                 (single_value self (recurrent_period p) (m, q) True) q m) bm"
    from Cons.prems(1) have inv: "all_entries (\<lambda>_ _ _ _. True) ?bm"
      by (rule all_entries_update) simp_all
    have "k \<noteq> name m"
      using obj_at_None [OF new(1)] Cons.prems(3) by auto
    then have "obj_at ?bm k m0"
      using Cons.prems(3) by (simp add: obj_at_update_other)
    moreover have "by_material_loop self p rest ?bm = Inr bm'"
      using Cons.prems(2) new(2) mq by simp
    ultimately show ?thesis
      using Cons.IH [OF inv] by simp
  next
    case (merge i iw r rw qn m1)
    let ?bm = "AList.update (name m)
              (entry_dict (\<lambda>f. i f + single_value self None (m, q) False f)
                 (\<lambda>f. iw f + single_value self None (m, q) True f)
                 (\<lambda>f. r f + single_value self (recurrent_period p) (m, q) False f)
                 (\<lambda>f. rw f + single_value self (recurrent_period p) (m, q) True f)
                 (py_add qn q) m1) bm"
    from Cons.prems(1) have inv: "all_entries (\<lambda>_ _ _ _. True) ?bm"
      by (rule all_entries_update) (simp_all add: merge(2))
    have "obj_at ?bm k m0"
    proof (cases "k = name m")
      case True
      have "obj_at bm (name m) m1"
        by (rule obj_atI [OF merge(1)])
      then have "m1 = m0"
        using Cons.prems(3) True obj_at_unique by simp
      then show ?thesis
        using True obj_at_update_same by simp
    next
      case False
      then show ?thesis
        using Cons.prems(3) by (simp add: obj_at_update_other)
    qed
    moreover have "by_material_loop self p rest ?bm = Inr bm'"
      using Cons.prems(2) merge(5) mq by simp
    ultimately show ?thesis
      using Cons.IH [OF inv] by simp
  next
    case clash
    then show ?thesis using Cons.prems(2) mq by simp
  qed
qed

lemma loop_object_ids:
  assumes "all_entries (\<lambda>_ _ _ _. True) bm" and "by_material_loop self p ms bm = Inr bm'"
    and "(m, q) \<in> set ms"
  shows "\<exists>m0. obj_at bm' (name m) m0 \<and> material_id m0 = material_id m"
  using assms
proof (induction ms arbitrary: bm)
  case Nil
  then show ?case by simp
next
  case (Cons hd rest)
  obtain m' q' where hd: "hd = (m', q')" by (cases hd)
  from Cons.prems(1) show ?case
  proof (cases rule: loop_cases [where m = m' and q = q' and self = self and p = p and rest = rest])
    case new
    let ?bm = "AList.update (name m')
              (entry_dict (single_value self None (m', q') False) (single_value self None (m', q') True)
                 (single_value self (recurrent_period p) (m', q') False)
                 (single_value self (recurrent_period p) (m', q') True) q' m') bm"
    from Cons.prems(1) have inv: "all_entries (\<lambda>_ _ _ _. True) ?bm"
      by (rule all_entries_update) simp_all
    have run: "by_material_loop self p rest ?bm = Inr bm'"
      using Cons.prems(2) new(2) hd by simp
    show ?thesis
    proof (cases "(m, q) = (m', q')")
      case True
      have "obj_at ?bm (name m') m'"
        by (rule obj_at_update_same)
      then have "obj_at bm' (name m') m'"
        by (rule loop_object_stable [OF inv run])
      then show ?thesis using True by auto
    next
      case False
      then have "(m, q) \<in> set rest"
        using Cons.prems(3) hd by auto
      then show ?thesis
        by (rule Cons.IH [OF inv run])
    qed
  next
    case (merge i iw r rw qn m1)
    let ?bm = "AList.update (name m')
              (entry_dict (\<lambda>f. i f + single_value self None (m', q') False f)
                 (\<lambda>f. iw f + single_value self None (m', q') True f)
                 (\<lambda>f. r f + single_value self (recurrent_period p) (m', q') False f)
                 (\<lambda>f. rw f + single_value self (recurrent_period p) (m', q') True f)
                 (py_add qn q') m1) bm"
    from Cons.prems(1) have inv: "all_entries (\<lambda>_ _ _ _. True) ?bm"
      by (rule all_entries_update) (simp_all add: merge(2))
    have run: "by_material_loop self p rest ?bm = Inr bm'"
      using Cons.prems(2) merge(5) hd by simp
    show ?thesis
    proof (cases "(m, q) = (m', q')")
      case True
      have "obj_at ?bm (name m') m1"
        by (rule obj_at_update_same)
      then have "obj_at bm' (name m') m1"
        by (rule loop_object_stable [OF inv run])
      then show ?thesis using True merge(3) by auto
    next
      case False
      then have "(m, q) \<in> set rest"
        using Cons.prems(3) hd by auto
      then show ?thesis
        by (rule Cons.IH [OF inv run])
    qed
  next
    case clash
    then show ?thesis using Cons.prems(2) hd by simp
  qed
qed

lemma calculate_flows_loop:
  "calculate_flows self p =
     (case by_material_loop self p (epic_materials self) [] of
        Inl e \<Rightarrow> Inl e
      | Inr bm \<Rightarrow> Inr (VDict (totals_dict
          (\<lambda>f. calc_value self (epic_materials self) f False None None)
          (\<lambda>f. calc_value self (epic_materials self) f True None None)
          (\<lambda>f. calc_value self (epic_materials self) f False (recurrent_period p) None)
          (\<lambda>f. calc_value self (epic_materials self) f True (recurrent_period p) None)
          @ [(''by_material'', VDict bm)])))"
  by (simp add: calculate_flows_def fill_flows_dict_closed bind_err_def totals_dict_def
      split: sum.splits)














lemma built_asset_period:
  "EPiCBuiltAsset_init nm xs p = Inr b \<Longrightarrow>
     an_period_of_analysis b = Some 0 \<and> component_type b = ''EPiCBuiltAsset''"
  by (auto simp: EPiCBuiltAsset_init_def bind_err_def split: sum.splits)















section \<open>Properties of the replacement scheduler\<close>

text \<open>
  Claim C2. For integers \<open>period \<ge> 1\<close> and \<open>service_life \<ge> 1\<close> the scheduler returns 0
  when the service life reaches the period, and otherwise \<open>period // service_life - 1\<close>
  when the service life divides the period and \<open>period // service_life\<close> when it does not.
\<close>

theorem num_replacements_positive:
  assumes "1 \<le> period" and "1 \<le> sl"
  shows "get_num_replacements period (Some sl) =
           Inr (if sl \<ge> period then 0
                else if sl dvd period then period div sl - 1
                else period div sl)"
  using assms by (auto simp: get_num_replacements_def dvd_eq_mod_eq_0)

theorem num_replacements_positive_witness:
  "get_num_replacements 100 (Some 25) = Inr 3
   \<and> get_num_replacements 100 (Some 30) = Inr 3
   \<and> get_num_replacements 20 (Some 50) = Inr 0"
  using num_replacements_positive [of 100 25] num_replacements_positive [of 100 30]
    num_replacements_positive [of 20 50]
  by simp

text \<open>
  Claim C3, as stated: with a service life of 0 or \<open>None\<close> the scheduler returns 0 and
  raises nothing, for every period. It fails at period 50 and service life 0: the modulo
  raises \<open>ZeroDivisionError\<close>.
\<close>

theorem num_replacements_zero_service_life_counterexample:
  "get_num_replacements 50 (Some 0) = Inl ZeroDivisionError
   \<and> get_num_replacements 50 (Some 0) \<noteq> Inr 0"
  by (simp add: get_num_replacements_def)

text \<open>
  Claim C3, amended. With a service life of 0 the scheduler returns 0 exactly when the
  period is at most 0 and raises \<open>ZeroDivisionError\<close> for every period above 0; with a
  service life of \<open>None\<close> it raises \<open>TypeError\<close> for every period. The function has no
  guard of its own.
\<close>

theorem num_replacements_unguarded:
  "get_num_replacements period (Some 0) =
     (if period \<le> 0 then Inr 0 else Inl ZeroDivisionError)
   \<and> get_num_replacements period None = Inl TypeError"
  by (simp add: get_num_replacements_def)

theorem num_replacements_unguarded_witness:
  "get_num_replacements 0 (Some 0) = Inr 0
   \<and> get_num_replacements 1 (Some 0) = Inl ZeroDivisionError
   \<and> get_num_replacements 1 None = Inl TypeError"
  using num_replacements_unguarded [of 0] num_replacements_unguarded [of 1]
  by simp

section \<open>Properties of the assembly flow calculator\<close>



text \<open>
  Claim C6. If the assembly's list holds two materials with the same display name and
  different catalog identifiers, \<open>calculate_flows\<close> raises \<open>ValueError\<close>, whatever the
  period and wherever the two stand in the list.
\<close>

theorem same_name_different_id_raises:
  assumes "(ma, qa) \<in> set (epic_materials self)" and "(mb, qb) \<in> set (epic_materials self)"
    and "name ma = name mb" and "material_id ma \<noteq> material_id mb"
  shows "calculate_flows self p = Inl ValueError"
proof (cases "by_material_loop self p (epic_materials self) []")
  case (Inl e)
  then have "e = ValueError"
    using loop_error [OF all_entries_Nil] by simp
  with Inl show ?thesis by (simp add: calculate_flows_loop)
next
  case (Inr bm)
  from loop_object_ids [OF all_entries_Nil Inr assms(1)] obtain m1 where
    1: "obj_at bm (name ma) m1" "material_id m1 = material_id ma" by auto
  from loop_object_ids [OF all_entries_Nil Inr assms(2)] obtain m2 where
    2: "obj_at bm (name mb) m2" "material_id m2 = material_id mb" by auto
  have "m1 = m2"
    using 1(1) 2(1) assms(3) obj_at_unique by simp
  then show ?thesis
    using 1(2) 2(2) assms(4) by simp
qed

theorem same_name_different_id_raises_witness:
  "calculate_flows
     (example_assembly ''wall''
        [(example_material ''steel'' ''m1'' (Some 25), PyInt 2),
         (example_material ''glass'' ''m2'' None, PyFloat 1),
         (example_material ''steel'' ''m3'' (Some 25), PyFloat 3)])
     (Some 100) = Inl ValueError"
  by (rule same_name_different_id_raises
        [of "example_material ''steel'' ''m1'' (Some 25)" "PyInt 2" _
            "example_material ''steel'' ''m3'' (Some 25)" "PyFloat 3"])
     (simp_all add: example_assembly_def example_material_def)

text \<open>
  Claim C5. With no service-life override on the assembly and a period above 0,
  \<open>_calculate_flows\<close> raises nothing and returns the sum over the materials of each
  material's own flow term multiplied by its replacement factor. The factor is 0 for a
  material whose service life is \<open>None\<close> or 0 (the exception of the scheduler is caught),
  and for every other service life it is the number that the scheduler returns.
\<close>

theorem recurrent_per_material:
  assumes "\<not> truthy_int (asm_service_life self)" and "0 < p"
  shows "calculate_flows_priv self ms f w (Some p) q =
           Inr (py_sum (map (\<lambda>m. flow_term self q f w m
                                  * replacement_factor p (service_life (fst m))) ms))
         \<and> replacement_factor p None = 0
         \<and> replacement_factor p (Some 0) = 0
         \<and> (\<forall>s. s \<noteq> 0 \<longrightarrow>
               (\<exists>n. get_num_replacements p (Some s) = Inr n
                    \<and> replacement_factor p (Some s) = real_of_int n))"
proof -
  have "calculate_flows_priv self ms f w (Some p) q =
           Inr (py_sum (map (\<lambda>m. flow_term self q f w m
                                  * replacement_factor p (service_life (fst m))) ms))"
    using assms by (simp add: calculate_flows_priv_closed calc_value_def)
  moreover have "\<forall>s. s \<noteq> 0 \<longrightarrow>
               (\<exists>n. get_num_replacements p (Some s) = Inr n
                    \<and> replacement_factor p (Some s) = real_of_int n)"
    by (simp add: replacement_factor_def get_num_replacements_def)
  ultimately show ?thesis
    using assms(2) by (simp add: replacement_factor_def get_num_replacements_def)
qed

theorem recurrent_per_material_witness:
  "calculate_flows_priv (example_assembly ''wall'' [])
     [(example_material ''steel'' ''m1'' (Some 0), PyInt 2),
      (example_material ''glass'' ''m2'' None, PyFloat 1),
      (example_material ''timber'' ''m3'' (Some 25), PyFloat 3)]
     Energy False (Some 100) None = Inr (PyFloat 495)
   \<and> get_num_replacements 100 (Some 25) = Inr 3"
  using recurrent_per_material [of "example_assembly ''wall'' []" 100
     "[(example_material ''steel'' ''m1'' (Some 0), PyInt 2),
      (example_material ''glass'' ''m2'' None, PyFloat 1),
      (example_material ''timber'' ''m3'' (Some 25), PyFloat 3)]" Energy False None]
  by (simp add: example_assembly_def example_material_def flow_term_def replacement_factor_def
      get_num_replacements_def py_sum_Cons)





section \<open>Properties of the analysis aggregator\<close>

text \<open>
  Claim C7, evaluated. Two assemblies, each with the one material \<open>steel\<close> of catalog
  id \<open>m1\<close>, with quantities 2 and 3, in one analysis of period 100. The flow leaves of
  the \<open>by_material\<close> entry are the sums of the two assemblies' leaves (110 + 165 for the
  initial energy). With the int quantities 2 and 3 the entry's \<open>quantity\<close> is 3: an int
  is no \<open>float\<close>, so \<open>_sum_by_assembly_and_material\<close> sends it to the last branch, which
  overwrites. With the float quantities 2.0 and 3.0 it is 5.0.
\<close>

theorem analysis_int_quantity_overwritten:
  "bind_err (example_analysis_flows EPiCAnalysis_init (Some 100)
       [[(example_material ''steel'' ''m1'' (Some 25), PyInt 2)],
        [(example_material ''steel'' ''m1'' (Some 25), PyInt 3)]])
     (\<lambda>an. Inr (get_path (an_flows an) [''by_material'', ''steel'', ''quantity''],
                get_path (an_flows an) [''by_material'', ''steel'', ''initial'', ''energy'']))
   = Inr (Inr (VNum (PyInt 3)), Inr (VNum (PyFloat 275)))
   \<and> bind_err (example_analysis_flows EPiCAnalysis_init (Some 100)
       [[(example_material ''steel'' ''m1'' (Some 25), PyFloat 2)],
        [(example_material ''steel'' ''m1'' (Some 25), PyFloat 3)]])
     (\<lambda>an. Inr (get_path (an_flows an) [''by_material'', ''steel'', ''quantity''],
                get_path (an_flows an) [''by_material'', ''steel'', ''initial'', ''energy'']))
   = Inr (Inr (VNum (PyFloat 5)), Inr (VNum (PyFloat 275)))"
  by code_simp

text \<open>
  Claim C8, evaluated. A built asset constructed as the Built Asset component does, with
  no period argument, so that \<open>EPiCAnalysis.__init__\<close> runs with its default of 100
  before \<open>period_of_analysis\<close> is set to 0: the field is 0, but the recurrent energy is
  330 in the asset's own flows and in the \<open>recalculated_flows\<close> of its assembly (initial
  110, three replacements). Constructed with \<open>period_of_analysis=0\<close>, the same buckets
  are 0.
\<close>

theorem built_asset_default_period_recurrent:
  "bind_err (example_analysis_flows EPiCBuiltAsset_init default_period_of_analysis
       [[(example_material ''steel'' ''m1'' (Some 25), PyFloat 2)]])
     (\<lambda>b. Inr (an_period_of_analysis b,
               get_path (an_flows b) [''recurrent'', ''energy''],
               map (\<lambda>a. get_path (recalculated_flows a) [''recurrent'', ''energy''])
                 (an_epic_assemblies b)))
   = Inr (Some 0, Inr (VNum (PyFloat 330)), [Inr (VNum (PyFloat 330))])
   \<and> bind_err (example_analysis_flows EPiCBuiltAsset_init (Some 0)
       [[(example_material ''steel'' ''m1'' (Some 25), PyFloat 2)]])
     (\<lambda>b. Inr (an_period_of_analysis b,
               get_path (an_flows b) [''recurrent'', ''energy''],
               map (\<lambda>a. get_path (recalculated_flows a) [''recurrent'', ''energy''])
                 (an_epic_assemblies b)))
   = Inr (Some 0, Inr (VNum (PyFloat 0)), [Inr (VNum (PyFloat 0))])"
  by code_simp




end
